theory Spec2Isabelle
  imports Main
begin

section \<open>Python string operations used by the agent\<close>

text \<open>
  Python strings are modelled as \<^typ>\<open>string\<close>; a character stands for a code point
  below 256. \<open>is_space\<close> is \<open>str.isspace\<close> (and the regular expression class
  \<open>\s\<close>) on that range: TAB..CR, FS..US, SPACE, NEL and NBSP.
\<close>

definition is_space :: "char \<Rightarrow> bool" where
  "is_space c =
     (let n = (of_char c :: nat)
      in (9 \<le> n \<and> n \<le> 13) \<or> (28 \<le> n \<and> n \<le> 32) \<or> n = 133 \<or> n = 160)"

definition newline :: char where
  "newline = CHR 0x0A"

text \<open>\<open>s.strip()\<close>\<close>

definition strip :: "string \<Rightarrow> string" where
  "strip s = rev (dropWhile is_space (rev (dropWhile is_space s)))"

text \<open>\<open>s.startswith(p)\<close>\<close>

definition startswith :: "string \<Rightarrow> string \<Rightarrow> bool" where
  "startswith s p = (take (length p) s = p)"

text \<open>\<open>p in s\<close>\<close>

fun contains :: "string \<Rightarrow> string \<Rightarrow> bool" where
  "contains [] p = (p = [])"
| "contains (c # cs) p = (startswith (c # cs) p \<or> contains cs p)"

text \<open>The text of \<open>s\<close> before the first occurrence of \<open>sep\<close> (all of it when there is none).\<close>

fun before_sep :: "string \<Rightarrow> string \<Rightarrow> string" where
  "before_sep sep [] = []"
| "before_sep sep (c # cs) = (if startswith (c # cs) sep then [] else c # before_sep sep cs)"

text \<open>
  \<open>re.search(r"^\s*(async\s+)?def\s+solve\s*\(", plan, re.MULTILINE)\<close>.
  \<open>match_solve_at\<close> matches the pattern after \<open>^\<close> at the head of its argument; whitespace
  and letters are disjoint, so the greedy choice is the only one that can succeed.
  With \<open>re.MULTILINE\<close> the anchor matches at the start of the text and after every newline.
\<close>

definition strip_prefix :: "string \<Rightarrow> string \<Rightarrow> string option" where
  "strip_prefix p s = (if startswith s p then Some (drop (length p) s) else None)"

definition spaces1 :: "string \<Rightarrow> string option" where
  "spaces1 s = (case s of [] \<Rightarrow> None | c # cs \<Rightarrow> if is_space c then Some (dropWhile is_space cs) else None)"

definition match_solve_at :: "string \<Rightarrow> bool" where
  "match_solve_at s =
     (let s1 = dropWhile is_space s;
          s2 = (case strip_prefix ''async'' s1 of
                  None \<Rightarrow> s1
                | Some r \<Rightarrow> (case spaces1 r of None \<Rightarrow> s1 | Some r' \<Rightarrow> r'))
      in case strip_prefix ''def'' s2 of
           None \<Rightarrow> False
         | Some r1 \<Rightarrow>
             (case spaces1 r1 of
                None \<Rightarrow> False
              | Some r2 \<Rightarrow>
                  (case strip_prefix ''solve'' r2 of
                     None \<Rightarrow> False
                   | Some r3 \<Rightarrow> startswith (dropWhile is_space r3) ''('')))"

fun match_after_newline :: "string \<Rightarrow> bool" where
  "match_after_newline [] = False"
| "match_after_newline (c # cs) =
     (if c = newline then match_solve_at cs \<or> match_after_newline cs
      else match_after_newline cs)"

definition re_search_solve :: "string \<Rightarrow> bool" where
  "re_search_solve plan = (match_solve_at plan \<or> match_after_newline plan)"

section \<open>The orchestration loop (core/loop.py)\<close>

text \<open>The result of perception (modules/perception.py, \<open>PerceptionResult\<close>).\<close>

record perception_result =
  intent :: string
  entities :: "string list"
  tool_hint :: "string option"
  tags :: "string list"
  selected_servers :: "string list"

text \<open>
  The session context. Of \<open>agent_profile.strategy\<close> the loop reads \<open>max_steps\<close> and
  \<open>max_lifelines_per_step\<close>. \<open>subtask_log\<close> records the calls of \<open>log_subtask\<close> and
  \<open>update_subtask_status\<close> as (tool name, status) in call order, and \<open>memory_log\<close> the
  calls of \<open>memory.add_tool_output\<close> as (plan, result, success).
\<close>

record agent_context =
  user_input :: string
  user_input_override :: "string option"
  max_steps :: int
  max_lifelines_per_step :: int
  step :: int
  final_answer :: "string option"
  subtask_log :: "(string \<times> string) list"
  memory_log :: "(string \<times> string \<times> bool) list"

text \<open>
  The collaborators of the loop. Perception, planning and the sandbox are language-model
  and tool calls whose answer may differ from pass to pass: each takes the number of the
  pass (the value of \<open>total_iterations\<close>) beside its arguments. \<open>unicode_escape\<close> is the
  codec of \<open>str.encode().decode('unicode_escape')\<close>, \<open>None\<close> when it raises.
\<close>

record env =
  run_perception :: "int \<Rightarrow> string \<Rightarrow> perception_result"
  get_tools_from_servers :: "string list \<Rightarrow> string list"
  generate_plan :: "int \<Rightarrow> string \<Rightarrow> int \<Rightarrow> string"
  run_python_sandbox_of :: "int \<Rightarrow> string \<Rightarrow> string"
  unicode_escape :: "string \<Rightarrow> string option"

text \<open>
  The variables of \<open>run\<close>, with the calls made to the collaborators so far:
  \<open>perception_calls\<close> (the input of each call of \<open>run_perception\<close>), \<open>plan_calls\<close>
  (input and \<open>step_num\<close> of each call of \<open>generate_plan\<close>) and \<open>sandbox_calls\<close> (the
  plan of each call of \<open>run_python_sandbox\<close>).
\<close>

record loop_state =
  ctx :: agent_context
  last_perception :: "perception_result option"
  last_selected_servers :: "string list option"
  total_iterations :: int
  perception_calls :: "string list"
  plan_calls :: "(string \<times> int) list"
  sandbox_calls :: "string list"

text \<open>How one pass of the inner loop ends.\<close>

datatype control =
  Return string
| Break
| Retry

definition final_marker :: string where
  "final_marker = ''FINAL_ANSWER:''"

definition further_marker :: string where
  "further_marker = ''FURTHER_PROCESSING_REQUIRED:''"

definition sandbox_error_prefix :: string where
  "sandbox_error_prefix = ''[sandbox error:''"

definition max_iterations_answer :: string where
  "max_iterations_answer = ''FINAL_ANSWER: [Max iterations reached]''"

definition max_steps_answer :: string where
  "max_steps_answer = ''FINAL_ANSWER: [Max steps reached]''"

definition execution_failed_answer :: string where
  "execution_failed_answer = ''FINAL_ANSWER: [Execution failed]''"

text \<open>
  \<open>clean_tool_result\<close>. The group of
  \<open>re.search(r'"result":\s*"([^"]*(?:\\.[^"]*)*)"', content)\<close> is the text between the
  quote that follows \<open>"result":\<close> and the next quote: \<open>[^"]*\<close> runs up to that quote and
  the closing quote matches there.
\<close>

definition has_quote :: "string \<Rightarrow> bool" where
  "has_quote s = (CHR 0x22 \<in> set s)"

definition result_group_at :: "string \<Rightarrow> string option" where
  "result_group_at s =
     (case strip_prefix (CHR 0x22 # ''result'' @ [CHR 0x22] @ '':'') s of
        None \<Rightarrow> None
      | Some r \<Rightarrow>
          (case dropWhile is_space r of
             [] \<Rightarrow> None
           | c # cs \<Rightarrow>
               if c = CHR 0x22 \<and> has_quote cs
               then Some (takeWhile (\<lambda>x. x \<noteq> CHR 0x22) cs) else None))"

fun re_search_result :: "string \<Rightarrow> string option" where
  "re_search_result [] = None"
| "re_search_result (c # cs) =
     (case result_group_at (c # cs) of
        Some g \<Rightarrow> Some g
      | None \<Rightarrow> re_search_result cs)"

definition clean_tool_result :: "env \<Rightarrow> string \<Rightarrow> string" where
  "clean_tool_result e content =
     (if contains content ''content=[TextContent(''
         \<and> contains content (CHR 0x22 # ''result'' @ [CHR 0x22] @ '':'')
      then (case re_search_result content of
              Some json_str \<Rightarrow>
                (case unicode_escape e json_str of
                   Some decoded \<Rightarrow> decoded
                 | None \<Rightarrow> content)
            | None \<Rightarrow> content)
      else content)"

definition truthy :: "string option \<Rightarrow> bool" where
  "truthy v = (case v of None \<Rightarrow> False | Some s \<Rightarrow> s \<noteq> [])"

definition override_text :: "string \<Rightarrow> string \<Rightarrow> string" where
  "override_text task cleaned_content =
     ''Original user task: '' @ task @ [newline, newline]
     @ ''Your last tool produced this result:'' @ [newline, newline]
     @ cleaned_content @ [newline, newline]
     @ ''If this fully answers the task, return:'' @ [newline]
     @ ''FINAL_ANSWER: your answer'' @ [newline, newline]
     @ ''Otherwise, return the next FUNCTION_CALL.''"

definition set_final_answer :: "string \<Rightarrow> loop_state \<Rightarrow> loop_state" where
  "set_final_answer a s = s\<lparr>ctx := (ctx s)\<lparr>final_answer := Some a\<rparr>\<rparr>"

definition log_subtask_status :: "string \<Rightarrow> string \<Rightarrow> loop_state \<Rightarrow> loop_state" where
  "log_subtask_status tool status s =
     s\<lparr>ctx := (ctx s)\<lparr>subtask_log := subtask_log (ctx s) @ [(tool, status)]\<rparr>\<rparr>"

definition add_tool_output :: "string \<Rightarrow> string \<Rightarrow> bool \<Rightarrow> loop_state \<Rightarrow> loop_state" where
  "add_tool_output plan result success s =
     s\<lparr>ctx := (ctx s)\<lparr>memory_log := memory_log (ctx s) @ [(plan, result, success)]\<rparr>\<rparr>"

text \<open>\<open>user_input_override or self.context.user_input\<close>\<close>

definition effective_input :: "string option \<Rightarrow> agent_context \<Rightarrow> string" where
  "effective_input override c =
     (case override of
        None \<Rightarrow> user_input c
      | Some s \<Rightarrow> if s \<noteq> [] then s else user_input c)"

text \<open>
  The perception stage of a pass (lines 77 to 92): the selected servers and the new
  state. A cached perception is reused when the override, the cached perception and the
  cached server list are all truthy (the list: not \<open>None\<close> and not empty).
\<close>

definition use_cached :: "string option \<Rightarrow> loop_state \<Rightarrow> bool" where
  "use_cached override s =
     (truthy override \<and> last_perception s \<noteq> None
      \<and> (case last_selected_servers s of None \<Rightarrow> False | Some srvs \<Rightarrow> srvs \<noteq> []))"

definition perceive :: "env \<Rightarrow> string option \<Rightarrow> loop_state \<Rightarrow> string list \<times> loop_state" where
  "perceive e override s =
     (if use_cached override s
      then (case last_selected_servers s of
              Some srvs \<Rightarrow> (srvs, s\<lparr>ctx := (ctx s)\<lparr>user_input_override := None\<rparr>\<rparr>)
            | None \<Rightarrow> ([], s))
      else (let inp = effective_input override (ctx s);
                p = run_perception e (total_iterations s) inp
            in (selected_servers p,
                s\<lparr>last_perception := Some p,
                  last_selected_servers := Some (selected_servers p),
                  perception_calls := perception_calls s @ [inp]\<rparr>)))"

text \<open>
  The execution stage of a pass for a plan that defines \<open>solve\<close> (lines 127 to 189).
  \<open>run_python_sandbox\<close> returns a string, so the branch for a result that is not one is
  never taken. In the continuation branch the result starts with the marker, so
  \<open>result.split(marker)[1]\<close> is the text between that marker and the next one.
\<close>

definition execute_plan :: "env \<Rightarrow> string \<Rightarrow> loop_state \<Rightarrow> control \<times> loop_state" where
  "execute_plan e plan s0 =
     (let s1 = log_subtask_status ''solve_sandbox'' ''pending'' s0;
          raw = run_python_sandbox_of e (total_iterations s1) plan;
          s2 = s1\<lparr>sandbox_calls := sandbox_calls s1 @ [plan]\<rparr>;
          result = strip raw
      in if startswith result final_marker then
           (let s3 = set_final_answer result s2;
                s4 = log_subtask_status ''solve_sandbox'' ''success'' s3;
                s5 = add_tool_output plan result True s4
            in (Return result, s5))
         else if startswith result further_marker then
           (let content = strip (before_sep further_marker (drop (length further_marker) result));
                cleaned_content = clean_tool_result e content;
                s3 = s2\<lparr>ctx := (ctx s2)\<lparr>user_input_override :=
                        Some (override_text (user_input (ctx s2)) cleaned_content)\<rparr>\<rparr>
            in (Break, s3))
         else
           (let success = \<not> startswith result sandbox_error_prefix;
                answer = (if success then ''FINAL_ANSWER: '' @ result else execution_failed_answer);
                s3 = set_final_answer answer s2;
                s4 = log_subtask_status ''solve_sandbox'' (if success then ''success'' else ''failure'') s3;
                s5 = add_tool_output plan result success s4
            in if success \<and> \<not> contains result further_marker
               then (Return answer, s5)
               else (Retry, s5)))"

text \<open>
  One pass of the inner loop (lines 69 to 193) at step \<open>step\<close>. \<open>Retry\<close> stands for
  \<open>lifelines_left -= 1; continue\<close>; the decrement is made by \<open>while_loop\<close>.
\<close>

definition loop_body :: "env \<Rightarrow> int \<Rightarrow> loop_state \<Rightarrow> control \<times> loop_state" where
  "loop_body e stp s0 =
     (let s1 = s0\<lparr>total_iterations := total_iterations s0 + 1\<rparr>
      in if total_iterations s1 > max_steps (ctx s1) * 2 then
           (Return max_iterations_answer, set_final_answer max_iterations_answer s1)
         else
           (let override = user_input_override (ctx s1);
                (servers, s2) = perceive e override s1
            in if get_tools_from_servers e servers = [] then (Break, s2)
               else
                 (let inp = effective_input override (ctx s2);
                      plan = generate_plan e (total_iterations s2) inp (stp + 1);
                      s3 = s2\<lparr>plan_calls := plan_calls s2 @ [(inp, stp + 1)]\<rparr>
                  in if re_search_solve plan then execute_plan e plan s3
                     else (Retry, s3))))"

text \<open>\<open>while lifelines_left >= 0\<close>: the value returned by \<open>run\<close> from inside the loop, if any.\<close>

function while_loop :: "env \<Rightarrow> int \<Rightarrow> int \<Rightarrow> loop_state \<Rightarrow> string option \<times> loop_state" where
  "while_loop e stp lifelines_left s =
     (if lifelines_left \<ge> 0 then
        (case loop_body e stp s of
           (Return r, s') \<Rightarrow> (Some r, s')
         | (Break, s') \<Rightarrow> (None, s')
         | (Retry, s') \<Rightarrow> while_loop e stp (lifelines_left - 1) s')
      else (None, s))"
  by pat_completeness auto
termination
  by (relation "measure (\<lambda>(e, stp, l, s). nat (l + 1))") auto

text \<open>\<open>for step in range(max_steps)\<close>, and the lines after the loop.\<close>

fun for_steps :: "env \<Rightarrow> int list \<Rightarrow> loop_state \<Rightarrow> string \<times> loop_state" where
  "for_steps e [] s = (max_steps_answer, set_final_answer max_steps_answer s)"
| "for_steps e (stp # rest) s =
     (let s1 = s\<lparr>ctx := (ctx s)\<lparr>step := stp\<rparr>\<rparr>
      in case while_loop e stp (max_lifelines_per_step (ctx s1)) s1 of
           (Some r, s') \<Rightarrow> (r, s')
         | (None, s') \<Rightarrow> for_steps e rest s')"

definition range :: "int \<Rightarrow> int list" where
  "range n = map int [0..<nat n]"

definition initial_state :: "agent_context \<Rightarrow> loop_state" where
  "initial_state c =
     \<lparr>ctx = c, last_perception = None, last_selected_servers = None, total_iterations = 0,
      perception_calls = [], plan_calls = [], sandbox_calls = []\<rparr>"

text \<open>\<open>AgentLoop.run\<close>: the \<open>result\<close> of the returned dictionary and the final state.\<close>

definition run :: "env \<Rightarrow> agent_context \<Rightarrow> string \<times> loop_state" where
  "run e c = for_steps e (range (max_steps c)) (initial_state c)"

text \<open>
  The cached server list, when there is one that would be reused, yields a tool.
\<close>

definition cache_ok :: "env \<Rightarrow> loop_state \<Rightarrow> bool" where
  "cache_ok e s =
     (case last_selected_servers s of
        None \<Rightarrow> True
      | Some srvs \<Rightarrow> srvs = [] \<or> get_tools_from_servers e srvs \<noteq> [])"

subsection \<open>Concrete sessions\<close>

text \<open>
  A session whose perception always selects the server \<open>math\<close>, whose planner always
  returns \<open>plan\<close> and whose sandbox always returns \<open>result\<close>; every selected server
  offers a tool.
\<close>

definition fixed_perception :: perception_result where
  "fixed_perception =
     \<lparr>intent = ''unknown'', entities = [], tool_hint = None, tags = [],
      selected_servers = [''math'']\<rparr>"

definition fixed_env :: "string \<Rightarrow> string \<Rightarrow> env" where
  "fixed_env plan result =
     \<lparr>run_perception = (\<lambda>t u. fixed_perception),
      get_tools_from_servers = (\<lambda>srvs. srvs),
      generate_plan = (\<lambda>t u n. plan),
      run_python_sandbox_of = (\<lambda>t p. result),
      unicode_escape = (\<lambda>s. Some s)\<rparr>"

definition new_context :: "string \<Rightarrow> int \<Rightarrow> int \<Rightarrow> agent_context" where
  "new_context inp n l =
     \<lparr>user_input = inp, user_input_override = None, max_steps = n,
      max_lifelines_per_step = l, step = 0, final_answer = None, subtask_log = [],
      memory_log = []\<rparr>"

definition solve_plan :: string where
  "solve_plan = ''async def solve(): return await lookup()''"

section \<open>The sandbox executor (modules/action.py)\<close>

subsection \<open>Python values and their text forms\<close>

text \<open>
  An exception, with what the handler of \<open>run_python_sandbox\<close> looks at. \<open>kind\<close> says
  whether its class derives from \<open>Exception\<close> or only from \<open>BaseException\<close> (\<open>SystemExit\<close>,
  \<open>KeyboardInterrupt\<close>, \<open>GeneratorExit\<close>, \<open>asyncio.CancelledError\<close>). \<open>on_str\<close> says what
  \<open>str(e)\<close> does: it returns \<open>message\<close>; or it returns a text that cannot be written out
  (one with a lone surrogate), so that printing it raises the given exception; or
  \<open>__str__\<close> itself raises the given exception (a \<open>TypeError\<close> when it returns a value that
  is no string).
\<close>

datatype exc_kind = ExceptionKind | BaseExceptionKind

datatype 'e str_outcome = Returns | Unencodable 'e | StrRaises 'e

datatype py_exception =
  PyExc (kind: exc_kind) (type_name: string) (message: string) (on_str: "py_exception str_outcome")

text \<open>
  The values a plan may return: \<open>None\<close>, booleans, integers, strings, lists, tuples,
  dictionaries (in insertion order) and any other object, given by the name of its type,
  its \<open>str\<close> and its \<open>repr\<close>. Floating-point numbers are not modelled.
\<close>

datatype pyval =
  PNone
| PBool bool
| PInt int
| PStr string
| PList "pyval list"
| PTuple "pyval list"
| PDict "(pyval \<times> pyval) list"
| PObject string string string

definition digit_char :: "nat \<Rightarrow> char" where
  "digit_char n = ''0123456789'' ! n"

fun str_nat :: "nat \<Rightarrow> string" where
  "str_nat n = (if n < 10 then [digit_char n] else str_nat (n div 10) @ [digit_char (n mod 10)])"

definition str_int :: "int \<Rightarrow> string" where
  "str_int i = (if i < 0 then CHR ''-'' # str_nat (nat (- i)) else str_nat (nat i))"

definition hex_digit :: "nat \<Rightarrow> char" where
  "hex_digit n = ''0123456789abcdef'' ! n"

definition hex2 :: "nat \<Rightarrow> string" where
  "hex2 n = [hex_digit (n div 16), hex_digit (n mod 16)]"

text \<open>\<open>sep.join(xs)\<close>\<close>

fun join :: "string \<Rightarrow> string list \<Rightarrow> string" where
  "join sep [] = []"
| "join sep [x] = x"
| "join sep (x # y # xs) = x @ sep @ join sep (y # xs)"

text \<open>
  \<open>repr\<close> of a string: double quotes when the text has a single quote and no double
  quote, single quotes otherwise; the quote, the backslash, TAB, LF and CR are escaped, and
  a character that is not printable is written \<open>\xNN\<close>.
\<close>

definition is_printable :: "char \<Rightarrow> bool" where
  "is_printable c =
     (let n = (of_char c :: nat)
      in (32 \<le> n \<and> n < 127) \<or> (161 \<le> n \<and> n \<noteq> 173))"

definition repr_char :: "char \<Rightarrow> char \<Rightarrow> string" where
  "repr_char quote c =
     (if c = quote \<or> c = CHR 0x5C then [CHR 0x5C, c]
      else if c = CHR 0x09 then [CHR 0x5C, CHR ''t'']
      else if c = CHR 0x0A then [CHR 0x5C, CHR ''n'']
      else if c = CHR 0x0D then [CHR 0x5C, CHR ''r'']
      else if is_printable c then [c]
      else [CHR 0x5C, CHR ''x''] @ hex2 (of_char c))"

definition repr_str :: "string \<Rightarrow> string" where
  "repr_str s =
     (let quote = (if CHR 0x27 \<in> set s \<and> CHR 0x22 \<notin> set s then CHR 0x22 else CHR 0x27)
      in quote # concat (map (repr_char quote) s) @ [quote])"

fun py_repr :: "pyval \<Rightarrow> string" where
  "py_repr PNone = ''None''"
| "py_repr (PBool b) = (if b then ''True'' else ''False'')"
| "py_repr (PInt i) = str_int i"
| "py_repr (PStr s) = repr_str s"
| "py_repr (PList xs) = ''['' @ join '', '' (map py_repr xs) @ '']''"
| "py_repr (PTuple xs) =
     (case xs of
        [x] \<Rightarrow> ''('' @ py_repr x @ '',)''
      | _ \<Rightarrow> ''('' @ join '', '' (map py_repr xs) @ '')'')"
| "py_repr (PDict kvs) =
     ''{'' @ join '', '' (map (\<lambda>(k, v). py_repr k @ '': '' @ py_repr v) kvs) @ ''}''"
| "py_repr (PObject t s r) = r"

text \<open>\<open>str(v)\<close>, which is also what an f-string writes for \<open>{v}\<close>.\<close>

definition py_str :: "pyval \<Rightarrow> string" where
  "py_str v = (case v of PStr s \<Rightarrow> s | PObject t s r \<Rightarrow> s | _ \<Rightarrow> py_repr v)"

definition py_type_name :: "pyval \<Rightarrow> string" where
  "py_type_name v =
     (case v of
        PNone \<Rightarrow> ''NoneType'' | PBool b \<Rightarrow> ''bool'' | PInt i \<Rightarrow> ''int'' | PStr s \<Rightarrow> ''str''
      | PList xs \<Rightarrow> ''list'' | PTuple xs \<Rightarrow> ''tuple'' | PDict kvs \<Rightarrow> ''dict''
      | PObject t s r \<Rightarrow> t)"

subsection \<open>\<open>json.dumps\<close> with its default arguments\<close>

definition TypeError :: "string \<Rightarrow> py_exception" where
  "TypeError msg = PyExc ExceptionKind ''TypeError'' msg Returns"

text \<open>A string with \<open>ensure_ascii=True\<close>: everything outside SPACE..\<open>~\<close> is escaped.\<close>

definition json_char_ascii :: "char \<Rightarrow> string" where
  "json_char_ascii c =
     (if c = CHR 0x22 then [CHR 0x5C, CHR 0x22]
      else if c = CHR 0x5C then [CHR 0x5C, CHR 0x5C]
      else if c = CHR 0x0A then [CHR 0x5C, CHR ''n'']
      else if c = CHR 0x0D then [CHR 0x5C, CHR ''r'']
      else if c = CHR 0x09 then [CHR 0x5C, CHR ''t'']
      else if c = CHR 0x08 then [CHR 0x5C, CHR ''b'']
      else if c = CHR 0x0C then [CHR 0x5C, CHR ''f'']
      else if 32 \<le> (of_char c :: nat) \<and> (of_char c :: nat) \<le> 126 then [c]
      else [CHR 0x5C, CHR ''u'', CHR ''0'', CHR ''0''] @ hex2 (of_char c))"

definition json_string_ascii :: "string \<Rightarrow> string" where
  "json_string_ascii s = CHR 0x22 # concat (map json_char_ascii s) @ [CHR 0x22]"

text \<open>The first error of a list of results, or all the values.\<close>

fun first_error :: "('e + 'a) list \<Rightarrow> 'e + 'a list" where
  "first_error [] = Inr []"
| "first_error (Inl e # rs) = Inl e"
| "first_error (Inr x # rs) = (case first_error rs of Inl e \<Rightarrow> Inl e | Inr xs \<Rightarrow> Inr (x # xs))"

text \<open>A dictionary key: strings as they are, integers, booleans and \<open>None\<close> as text.\<close>

definition json_key :: "pyval \<Rightarrow> py_exception + string" where
  "json_key k =
     (case k of
        PStr s \<Rightarrow> Inr (json_string_ascii s)
      | PBool b \<Rightarrow> Inr (json_string_ascii (if b then ''true'' else ''false''))
      | PNone \<Rightarrow> Inr (json_string_ascii ''null'')
      | PInt i \<Rightarrow> Inr (json_string_ascii (str_int i))
      | _ \<Rightarrow> Inl (TypeError (''keys must be str, int, float, bool or None, not ''
                              @ py_type_name k)))"

fun json_dumps :: "pyval \<Rightarrow> py_exception + string" where
  "json_dumps PNone = Inr ''null''"
| "json_dumps (PBool b) = Inr (if b then ''true'' else ''false'')"
| "json_dumps (PInt i) = Inr (str_int i)"
| "json_dumps (PStr s) = Inr (json_string_ascii s)"
| "json_dumps (PList xs) =
     (case first_error (map json_dumps xs) of
        Inl e \<Rightarrow> Inl e
      | Inr ts \<Rightarrow> Inr (''['' @ join '', '' ts @ '']''))"
| "json_dumps (PTuple xs) =
     (case first_error (map json_dumps xs) of
        Inl e \<Rightarrow> Inl e
      | Inr ts \<Rightarrow> Inr (''['' @ join '', '' ts @ '']''))"
| "json_dumps (PDict kvs) =
     (case first_error
             (map (\<lambda>(k, v). case json_key k of
                               Inl e \<Rightarrow> Inl e
                             | Inr kt \<Rightarrow> (case json_dumps v of
                                            Inl e \<Rightarrow> Inl e
                                          | Inr vt \<Rightarrow> Inr (kt @ '': '' @ vt))) kvs) of
        Inl e \<Rightarrow> Inl e
      | Inr ts \<Rightarrow> Inr (''{'' @ join '', '' ts @ ''}''))"
| "json_dumps (PObject t s r) =
     Inl (TypeError (''Object of type '' @ t @ '' is not JSON serializable''))"

subsection \<open>Plans and the tool proxy\<close>

text \<open>
  What \<open>solve\<close> does, as far as the sandbox can see. It returns a value or raises. It
  awaits \<open>mcp.call_tool(tool_name, input_dict)\<close> and goes on with what the call gave it,
  the result or the exception (a call inside \<open>try\<close> may handle it). The plan holds the
  proxy object itself, whose attributes are plain ones: it may assign \<open>mcp.call_count\<close>,
  read it, and await \<open>mcp.dispatcher.call_tool(tool_name, input_dict)\<close> without going
  through the proxy. Other ways of altering the objects of the sandbox (rebinding
  \<open>mcp.dispatcher\<close> or \<open>mcp.call_tool\<close>, assigning a value that is no integer to the
  counter) are not modelled.
\<close>

datatype prog =
  ReturnValue pyval
| Raise py_exception
| CallTool string pyval "py_exception + pyval \<Rightarrow> prog"
| SetCallCount int prog
| GetCallCount "int \<Rightarrow> prog"
| CallDispatcher string pyval "py_exception + pyval \<Rightarrow> prog"


text \<open>
  The plan text after \<open>exec(compile(code, ...), sandbox.__dict__)\<close> and the lookup of
  \<open>solve\<close>: compiling or running the module raised, or no \<open>solve\<close> is bound (or it is
  \<open>None\<close>), or \<open>solve\<close> is bound and behaves as the program.
\<close>

datatype compiled_plan =
  ExecRaises py_exception
| NoSolve
| Solve prog

definition MAX_TOOL_CALLS_PER_PLAN :: int where
  "MAX_TOOL_CALLS_PER_PLAN = 5"

text \<open>
  \<open>SandboxMCP\<close>: the counter of the proxy and, to observe it, the calls the plan made in
  order, each marked as passed to the dispatcher by the proxy, refused by the proxy, or
  made on the dispatcher directly.
\<close>

datatype tool_event =
  Dispatched string pyval
| BudgetExceeded string pyval
| Direct string pyval

record sandbox_mcp =
  call_count :: int
  events :: "tool_event list"

text \<open>
  \<open>dispatcher.call_tool\<close>: its answer (a result or an exception) may depend on the calls
  made before.
\<close>

type_synonym dispatcher = "tool_event list \<Rightarrow> string \<Rightarrow> pyval \<Rightarrow> py_exception + pyval"

definition budget_error :: py_exception where
  "budget_error =
     PyExc ExceptionKind ''RuntimeError''
       (''Exceeded max tool calls ('' @ str_int MAX_TOOL_CALLS_PER_PLAN @ '') in solve() plan.'')
       Returns"

definition call_tool ::
  "dispatcher \<Rightarrow> string \<Rightarrow> pyval \<Rightarrow> sandbox_mcp \<Rightarrow> (py_exception + pyval) \<times> sandbox_mcp" where
  "call_tool d tool_name input_dict m =
     (let m1 = m\<lparr>call_count := call_count m + 1\<rparr>
      in if call_count m1 > MAX_TOOL_CALLS_PER_PLAN
         then (Inl budget_error,
               m1\<lparr>events := events m1 @ [BudgetExceeded tool_name input_dict]\<rparr>)
         else (d (events m1) tool_name input_dict,
               m1\<lparr>events := events m1 @ [Dispatched tool_name input_dict]\<rparr>))"

primrec run_prog ::
  "dispatcher \<Rightarrow> prog \<Rightarrow> sandbox_mcp \<Rightarrow> (py_exception + pyval) \<times> sandbox_mcp" where
  "run_prog d (ReturnValue v) = (\<lambda>m. (Inr v, m))"
| "run_prog d (Raise e) = (\<lambda>m. (Inl e, m))"
| "run_prog d (CallTool tool_name input_dict k) =
     (\<lambda>m. case call_tool d tool_name input_dict m of (r, m') \<Rightarrow> run_prog d (k r) m')"
| "run_prog d (SetCallCount c p) = (\<lambda>m. run_prog d p (m\<lparr>call_count := c\<rparr>))"
| "run_prog d (GetCallCount k) = (\<lambda>m. run_prog d (k (call_count m)) m)"
| "run_prog d (CallDispatcher tool_name input_dict k) =
     (\<lambda>m. run_prog d (k (d (events m) tool_name input_dict))
             (m\<lparr>events := events m @ [Direct tool_name input_dict]\<rparr>))"

definition new_mcp :: sandbox_mcp where
  "new_mcp = \<lparr>call_count = 0, events = []\<rparr>"

text \<open>The formatting of the result (lines 84 to 91).\<close>

definition format_result :: "pyval \<Rightarrow> py_exception + string" where
  "format_result result =
     (case result of
        PDict kvs \<Rightarrow>
          (case map_of kvs (PStr ''result'') of
             Some r \<Rightarrow> Inr (py_str r)
           | None \<Rightarrow> json_dumps result)
      | PList xs \<Rightarrow> Inr (join '' '' (map py_str xs))
      | _ \<Rightarrow> Inr (py_str result))"

text \<open>
  The body of the \<open>try\<close> statement (lines 48 to 91): the string it returns or the
  exception it raises, and the proxy as the plan left it.
\<close>

definition try_block ::
  "compiled_plan \<Rightarrow> dispatcher \<Rightarrow> (py_exception + string) \<times> sandbox_mcp" where
  "try_block code d =
     (case code of
        ExecRaises e \<Rightarrow> (Inl e, new_mcp)
      | NoSolve \<Rightarrow>
          (Inl (PyExc ExceptionKind ''ValueError'' ''No solve() function found in plan.''
                  Returns), new_mcp)
      | Solve p \<Rightarrow>
          (case run_prog d p new_mcp of
             (Inl e, m) \<Rightarrow> (Inl e, m)
           | (Inr result, m) \<Rightarrow> (format_result result, m)))"

text \<open>
  The handler (lines 98 to 100). \<open>except Exception\<close> lets pass an exception whose class
  does not derive from \<open>Exception\<close>. For the others, line 99 formats the exception into
  the log message, which raises when \<open>__str__\<close> raises, and prints it, which raises when
  the text cannot be written out; an exception raised here leaves \<open>run_python_sandbox\<close>.
  Otherwise line 100 returns \<open>f"[sandbox error: {str(e)}]"\<close>. Printing a text that can be
  encoded is taken to succeed.
\<close>

definition except_Exception :: "py_exception \<Rightarrow> py_exception + string" where
  "except_Exception e =
     (if kind e = ExceptionKind
      then (case on_str e of
              StrRaises e' \<Rightarrow> Inl e'
            | Unencodable e' \<Rightarrow> Inl e'
            | Returns \<Rightarrow> Inr (''[sandbox error: '' @ message e @ '']''))
      else Inl e)"

text \<open>
  \<open>run_python_sandbox\<close>: the returned string, or the exception that leaves the function,
  and the proxy as the plan left it.
\<close>

definition run_python_sandbox ::
  "compiled_plan \<Rightarrow> dispatcher \<Rightarrow> (py_exception + string) \<times> sandbox_mcp" where
  "run_python_sandbox code d =
     (case try_block code d of
        (Inl e, m) \<Rightarrow> (except_Exception e, m)
      | (Inr out, m) \<Rightarrow> (Inr out, m))"






subsection \<open>Concrete plans\<close>

text \<open>\<open>await mcp.call_tool(tool_name, input_dict)\<close> outside any \<open>try\<close>, then the rest.\<close>

definition call_then :: "string \<Rightarrow> pyval \<Rightarrow> prog \<Rightarrow> prog" where
  "call_then tool_name input_dict rest =
     CallTool tool_name input_dict (\<lambda>r. case r of Inl e \<Rightarrow> Raise e | Inr v \<Rightarrow> rest)"

definition add_args :: "int \<Rightarrow> pyval" where
  "add_args i = PDict [(PStr ''a'', PInt i), (PStr ''b'', PInt 1)]"

definition five_calls_then :: "prog \<Rightarrow> prog" where
  "five_calls_then rest =
     call_then ''add'' (add_args 1) (call_then ''add'' (add_args 2)
       (call_then ''add'' (add_args 3) (call_then ''add'' (add_args 4)
         (call_then ''add'' (add_args 5) rest))))"



text \<open>Six calls, with \<open>mcp.call_count = 0\<close> before the sixth.\<close>

definition six_calls_reset :: prog where
  "six_calls_reset =
     five_calls_then (SetCallCount 0
       (call_then ''add'' (add_args 6) (ReturnValue (PStr ''FINAL_ANSWER: done''))))"

definition echo_dispatcher :: dispatcher where
  "echo_dispatcher = (\<lambda>evs tool_name input_dict. Inr input_dict)"



section \<open>Properties of the orchestration loop\<close>

declare while_loop.simps [simp del]

lemmas eval_defs =
  run_def range_def initial_state_def new_context_def fixed_env_def fixed_perception_def
  while_loop.simps loop_body_def execute_plan_def perceive_def use_cached_def truthy_def
  effective_input_def re_search_solve_def match_solve_at_def strip_prefix_def startswith_def
  spaces1_def is_space_def newline_def set_final_answer_def log_subtask_status_def
  add_tool_output_def strip_def final_marker_def further_marker_def sandbox_error_prefix_def
  clean_tool_result_def override_text_def solve_plan_def Let_def upt_rec

lemma set_final_answer_simps [simp]:
  "total_iterations (set_final_answer a s) = total_iterations s"
  "sandbox_calls (set_final_answer a s) = sandbox_calls s"
  "final_answer (ctx (set_final_answer a s)) = Some a"
  "max_steps (ctx (set_final_answer a s)) = max_steps (ctx s)"
  "max_lifelines_per_step (ctx (set_final_answer a s)) = max_lifelines_per_step (ctx s)"
  by (simp_all add: set_final_answer_def)

lemma perceive_props:
  assumes "perceive e ov s = (srv, s')"
  shows "total_iterations s' = total_iterations s"
    and "sandbox_calls s' = sandbox_calls s"
    and "max_steps (ctx s') = max_steps (ctx s)"
    and "max_lifelines_per_step (ctx s') = max_lifelines_per_step (ctx s)"
    and "final_answer (ctx s') = final_answer (ctx s)"
  using assms by (auto simp: perceive_def Let_def split: if_splits option.splits)

lemma perceive_tools:
  assumes "perceive e ov s = (srv, s')"
    and "\<forall>t u. get_tools_from_servers e (selected_servers (run_perception e t u)) \<noteq> []"
    and "cache_ok e s"
  shows "get_tools_from_servers e srv \<noteq> []" and "cache_ok e s'"
  using assms by (auto simp: perceive_def use_cached_def cache_ok_def Let_def split: if_splits option.splits)

lemma body_guard:
  assumes "total_iterations s + 1 > max_steps (ctx s) * 2"
  shows "loop_body e stp s = (Return max_iterations_answer,
           set_final_answer max_iterations_answer (s\<lparr>total_iterations := total_iterations s + 1\<rparr>))"
  using assms by (simp add: loop_body_def Let_def)

lemma body_invalid:
  assumes inv: "\<forall>t u n. \<not> re_search_solve (generate_plan e t u n)"
    and tools: "\<forall>t u. get_tools_from_servers e (selected_servers (run_perception e t u)) \<noteq> []"
    and ok: "cache_ok e s"
    and le: "total_iterations s + 1 \<le> max_steps (ctx s) * 2"
    and body: "loop_body e stp s = (c, s')"
  shows "c = Retry \<and> total_iterations s' = total_iterations s + 1 \<and> cache_ok e s'
       \<and> sandbox_calls s' = sandbox_calls s
       \<and> max_steps (ctx s') = max_steps (ctx s)
       \<and> max_lifelines_per_step (ctx s') = max_lifelines_per_step (ctx s)"
proof -
  let ?s1 = "s\<lparr>total_iterations := total_iterations s + 1\<rparr>"
  obtain srv s2 where p: "perceive e (user_input_override (ctx ?s1)) ?s1 = (srv, s2)"
    by (cases "perceive e (user_input_override (ctx ?s1)) ?s1") auto
  have ok1: "cache_ok e ?s1" using ok by (simp add: cache_ok_def)
  note pp = perceive_props[OF p] perceive_tools[OF p tools ok1]
  have "loop_body e stp s = (Retry, s2\<lparr>plan_calls := plan_calls s2 @
          [(effective_input (user_input_override (ctx ?s1)) (ctx s2), stp + 1)]\<rparr>)"
    using le inv pp p by (simp add: loop_body_def Let_def)
  with body pp show ?thesis by (auto simp: cache_ok_def)
qed


lemma while_invalid:
  "\<forall>t u n. \<not> re_search_solve (generate_plan e t u n) \<Longrightarrow>
   \<forall>t u. get_tools_from_servers e (selected_servers (run_perception e t u)) \<noteq> [] \<Longrightarrow>
         cache_ok e s \<Longrightarrow> -1 \<le> l \<Longrightarrow> total_iterations s \<le> max_steps (ctx s) * 2 \<Longrightarrow>
         while_loop e stp l s = (r, s') \<Longrightarrow>
         cache_ok e s' \<and> sandbox_calls s' = sandbox_calls s
         \<and> max_steps (ctx s') = max_steps (ctx s)
         \<and> max_lifelines_per_step (ctx s') = max_lifelines_per_step (ctx s)
         \<and> (if total_iterations s + (l + 1) \<le> max_steps (ctx s) * 2
             then r = None \<and> total_iterations s' = total_iterations s + (l + 1)
             else r = Some max_iterations_answer
                  \<and> total_iterations s' = max_steps (ctx s) * 2 + 1
                  \<and> final_answer (ctx s') = Some max_iterations_answer)"
proof (induction e stp l s arbitrary: r s' rule: while_loop.induct)
  case (1 e stp l s)
  note inv = "1.prems"(1) and tools = "1.prems"(2) and ok = "1.prems"(3)
    and run = "1.prems"(6)
  show ?case
  proof (cases "l \<ge> 0")
    case False
    with "1.prems" show ?thesis by (simp add: while_loop.simps[of e stp l s])
  next
    case True
    show ?thesis
    proof (cases "total_iterations s + 1 > max_steps (ctx s) * 2")
      case gt: True
      have "while_loop e stp l s = (Some max_iterations_answer,
              set_final_answer max_iterations_answer (s\<lparr>total_iterations := total_iterations s + 1\<rparr>))"
        using True body_guard[OF gt, of e stp] by (simp add: while_loop.simps[of e stp l s])
      with "1.prems" gt True show ?thesis by (auto simp: cache_ok_def set_final_answer_def)
    next
      case le: False
      obtain c s1 where b: "loop_body e stp s = (c, s1)" by (cases "loop_body e stp s") auto
      have le': "total_iterations s + 1 \<le> max_steps (ctx s) * 2" using le by simp
      from body_invalid[OF inv tools ok le' b]
      have c: "c = Retry" and t1: "total_iterations s1 = total_iterations s + 1"
        and ok1: "cache_ok e s1" and sc: "sandbox_calls s1 = sandbox_calls s"
        and m1: "max_steps (ctx s1) = max_steps (ctx s)"
        and l1: "max_lifelines_per_step (ctx s1) = max_lifelines_per_step (ctx s)" by auto
      have w: "while_loop e stp (l - 1) s1 = (r, s')"
        using run True b c by (simp add: while_loop.simps[of e stp l s])
      have "cache_ok e s' \<and> sandbox_calls s' = sandbox_calls s1
         \<and> max_steps (ctx s') = max_steps (ctx s1)
         \<and> max_lifelines_per_step (ctx s') = max_lifelines_per_step (ctx s1)
         \<and> (if total_iterations s1 + (l - 1 + 1) \<le> max_steps (ctx s1) * 2
             then r = None \<and> total_iterations s' = total_iterations s1 + (l - 1 + 1)
             else r = Some max_iterations_answer
                  \<and> total_iterations s' = max_steps (ctx s1) * 2 + 1
                  \<and> final_answer (ctx s') = Some max_iterations_answer)"
        by (rule "1.IH"[OF True b[symmetric] _ inv tools ok1 _ _ w]) (use c True le' t1 m1 in auto)
      then show ?thesis using t1 m1 l1 sc by (auto split: if_splits)
    qed
  qed
qed

lemma for_invalid:
  "\<forall>t u n. \<not> re_search_solve (generate_plan e t u n) \<Longrightarrow>
   \<forall>t u. get_tools_from_servers e (selected_servers (run_perception e t u)) \<noteq> [] \<Longrightarrow>
   cache_ok e s \<Longrightarrow> -1 \<le> max_lifelines_per_step (ctx s) \<Longrightarrow>
   total_iterations s \<le> max_steps (ctx s) * 2 \<Longrightarrow>
   for_steps e steps s = (r, s') \<Longrightarrow>
   sandbox_calls s' = sandbox_calls s \<and> final_answer (ctx s') = Some r
   \<and> (if total_iterations s + int (length steps) * (max_lifelines_per_step (ctx s) + 1)
            \<le> max_steps (ctx s) * 2
       then r = max_steps_answer
            \<and> total_iterations s'
                = total_iterations s + int (length steps) * (max_lifelines_per_step (ctx s) + 1)
       else r = max_iterations_answer \<and> total_iterations s' = max_steps (ctx s) * 2 + 1)"
proof (induction steps arbitrary: s r s')
  case Nil
  then show ?case by auto
next
  case (Cons stp rest)
  note inv = Cons.prems(1) and tools = Cons.prems(2)
  let ?s1 = "s\<lparr>ctx := (ctx s)\<lparr>step := stp\<rparr>\<rparr>"
  let ?L = "max_lifelines_per_step (ctx s)"
  let ?M = "max_steps (ctx s)"
  define K where "K = int (length rest) * (?L + 1)"
  have K0: "0 \<le> K" using Cons.prems(4) by (simp add: K_def)
  have len: "int (length (stp # rest)) * (?L + 1) = (?L + 1) + K"
    by (simp add: K_def algebra_simps)
  obtain w s2 where w: "while_loop e stp ?L ?s1 = (w, s2)"
    by (cases "while_loop e stp ?L ?s1") auto
  have ok1: "cache_ok e ?s1" using Cons.prems(3) by (simp add: cache_ok_def)
  have t1: "total_iterations ?s1 \<le> max_steps (ctx ?s1) * 2" using Cons.prems(5) by simp
  from while_invalid[OF inv tools ok1 _ t1 w] Cons.prems(4)
  have ok2: "cache_ok e s2" and sc2: "sandbox_calls s2 = sandbox_calls s"
    and m2: "max_steps (ctx s2) = ?M" and l2: "max_lifelines_per_step (ctx s2) = ?L"
    and wres: "if total_iterations s + (?L + 1) \<le> ?M * 2
             then w = None \<and> total_iterations s2 = total_iterations s + (?L + 1)
             else w = Some max_iterations_answer
                  \<and> total_iterations s2 = ?M * 2 + 1
                  \<and> final_answer (ctx s2) = Some max_iterations_answer"
    by simp_all
  show ?case
  proof (cases "total_iterations s + (?L + 1) \<le> ?M * 2")
    case True
    with wres have wn: "w = None" and t2: "total_iterations s2 = total_iterations s + (?L + 1)"
      by simp_all
    have f: "for_steps e rest s2 = (r, s')" using Cons.prems(6) w wn by simp
    have t2': "total_iterations s2 \<le> max_steps (ctx s2) * 2" using True t2 m2 by simp
    have l2': "-1 \<le> max_lifelines_per_step (ctx s2)" using l2 Cons.prems(4) by simp
    from Cons.IH[OF inv tools ok2 l2' t2' f]
    show ?thesis unfolding len using sc2 m2 l2 t2 K0 by (simp add: K_def add.assoc)
  next
    case False
    with wres have ws: "w = Some max_iterations_answer"
      and t2: "total_iterations s2 = ?M * 2 + 1"
      and fa: "final_answer (ctx s2) = Some max_iterations_answer" by simp_all
    have "r = max_iterations_answer" "s' = s2" using Cons.prems(6) w ws by simp_all
    then show ?thesis unfolding len using False K0 t2 fa sc2 by simp
  qed
qed

text \<open>
  Claim C2, as the code has it. When the planner returns a plan of invalid shape on every
  pass (and every perception selects servers that offer a tool), with \<open>max_steps = N \<ge> 0\<close>
  and \<open>max_lifelines_per_step = L \<ge> 0\<close>: the sandbox is never invoked and \<open>run\<close> ends with
  the answer stored in the context; when \<open>N * (L + 1) \<le> 2 * N\<close> it ends after exactly
  \<open>N * (L + 1)\<close> passes with the "max steps reached" answer, and otherwise the iteration
  guard ends it at pass \<open>2 * N + 1\<close> with the "max iterations reached" answer.
\<close>

theorem invalid_plans_iterations:
  assumes inv: "\<forall>t u n. \<not> re_search_solve (generate_plan e t u n)"
    and tools: "\<forall>t u. get_tools_from_servers e (selected_servers (run_perception e t u)) \<noteq> []"
    and N: "0 \<le> max_steps c" and L: "0 \<le> max_lifelines_per_step c"
  shows "sandbox_calls (snd (run e c)) = []
       \<and> final_answer (ctx (snd (run e c))) = Some (fst (run e c))
       \<and> (if max_steps c * (max_lifelines_per_step c + 1) \<le> max_steps c * 2
           then fst (run e c) = max_steps_answer
              \<and> total_iterations (snd (run e c)) = max_steps c * (max_lifelines_per_step c + 1)
           else fst (run e c) = max_iterations_answer
              \<and> total_iterations (snd (run e c)) = max_steps c * 2 + 1)"
proof -
  obtain r s' where r: "for_steps e (range (max_steps c)) (initial_state c) = (r, s')"
    by (cases "for_steps e (range (max_steps c)) (initial_state c)") auto
  have ok: "cache_ok e (initial_state c)" by (simp add: cache_ok_def initial_state_def)
  have l: "-1 \<le> max_lifelines_per_step (ctx (initial_state c))"
    using L by (simp add: initial_state_def)
  have t: "total_iterations (initial_state c) \<le> max_steps (ctx (initial_state c)) * 2"
    using N by (simp add: initial_state_def)
  have len: "int (length (range (max_steps c))) = max_steps c" using N by (simp add: range_def)
  have i: "total_iterations (initial_state c) = 0" "sandbox_calls (initial_state c) = []"
    "ctx (initial_state c) = c" by (simp_all add: initial_state_def)
  from for_invalid[OF inv tools ok l t r]
  show ?thesis unfolding run_def r len i by simp
qed

theorem invalid_plans_iterations_witness:
  "fst (run (fixed_env ''I cannot help'' '''') (new_context ''q'' 3 1)) = max_steps_answer
   \<and> total_iterations (snd (run (fixed_env ''I cannot help'' '''') (new_context ''q'' 3 1))) = 6"
  using invalid_plans_iterations[of "fixed_env ''I cannot help'' ''''" "new_context ''q'' 3 1"]
  by (simp add: new_context_def fixed_env_def fixed_perception_def re_search_solve_def
        match_solve_at_def strip_prefix_def startswith_def spaces1_def is_space_def
        newline_def Let_def)

text \<open>
  With three steps and three lifelines the claim promises 12 passes and the "max steps
  reached" answer; the guard stops the run at pass 7.
\<close>

theorem invalid_plans_guard_counterexample:
  "(\<forall>t u n. \<not> re_search_solve (generate_plan (fixed_env ''I cannot help'' '''') t u n))
   \<and> total_iterations (snd (run (fixed_env ''I cannot help'' '''') (new_context ''q'' 3 3))) = 7
   \<and> fst (run (fixed_env ''I cannot help'' '''') (new_context ''q'' 3 3)) = max_iterations_answer
   \<and> max_iterations_answer \<noteq> max_steps_answer"
  by (simp add: eval_defs max_iterations_answer_def max_steps_answer_def)

text \<open>
  Claim C1, at a session of three steps whose every plan ends in a continuation request:
  the loop leaves the inner loop and the next pass runs at the next step. The planner is
  called with \<open>step_num\<close> 1, 2 and 3 (steps 0, 1 and 2), never twice at one step.
\<close>

theorem continuation_advances_step:
  "map snd (plan_calls (snd (run
      (fixed_env solve_plan ''FURTHER_PROCESSING_REQUIRED: partial data'')
      (new_context ''q'' 3 3)))) = [1, 2, 3]"
  by (simp add: eval_defs)

text \<open>
  Claim C3, at the same session: the run ends after three passes with the "max steps
  reached" answer; the iteration guard (which would fire at pass 7) is never reached.
\<close>

theorem continuation_ends_at_max_steps:
  "fst (run (fixed_env solve_plan ''FURTHER_PROCESSING_REQUIRED: partial data'')
          (new_context ''q'' 3 3)) = max_steps_answer
   \<and> total_iterations (snd (run
          (fixed_env solve_plan ''FURTHER_PROCESSING_REQUIRED: partial data'')
          (new_context ''q'' 3 3))) = 3"
  by (simp add: eval_defs)

text \<open>
  Claim C4, at a session whose planner returns the bare final answer
  \<open>FINAL_ANSWER: 42\<close>: the sandbox is not invoked, but the plan is retried as an invalid
  one and the run ends with the "max iterations reached" answer, not with 42.
\<close>

theorem bare_final_answer_plan_retried:
  "fst (run (fixed_env ''FINAL_ANSWER: 42'' '''') (new_context ''What is 6 times 7?'' 3 3))
     = max_iterations_answer
   \<and> sandbox_calls (snd (run (fixed_env ''FINAL_ANSWER: 42'' '''')
        (new_context ''What is 6 times 7?'' 3 3))) = []"
  by (simp add: eval_defs)

lemma body_raw:
  assumes g: "total_iterations s + 1 \<le> max_steps (ctx s) * 2"
    and p: "perceive e (user_input_override (ctx s)) (s\<lparr>total_iterations := total_iterations s + 1\<rparr>) = (srv, s2)"
    and t: "get_tools_from_servers e srv \<noteq> []"
    and pl: "plan = generate_plan e (total_iterations s + 1)
                     (effective_input (user_input_override (ctx s)) (ctx s2)) (stp + 1)"
    and d: "re_search_solve plan"
    and r: "result = strip (run_python_sandbox_of e (total_iterations s + 1) plan)"
    and raw: "\<not> startswith result final_marker" "\<not> startswith result further_marker"
             "\<not> startswith result sandbox_error_prefix"
    and nc: "\<not> contains result further_marker"
  shows "\<exists>s'. loop_body e stp s = (Return (''FINAL_ANSWER: '' @ result), s')
           \<and> final_answer (ctx s') = Some (''FINAL_ANSWER: '' @ result)
           \<and> subtask_log (ctx s') = subtask_log (ctx s2)
                 @ [(''solve_sandbox'', ''pending''), (''solve_sandbox'', ''success'')]
           \<and> memory_log (ctx s') = memory_log (ctx s2) @ [(plan, result, True)]
           \<and> sandbox_calls s' = sandbox_calls s2 @ [plan]"
proof -
  have t2: "total_iterations s2 = total_iterations s + 1"
    using perceive_props(1)[OF p] by simp
  show ?thesis
    using g p t d raw nc t2 pl[symmetric] r[symmetric]
    by (simp add: loop_body_def execute_plan_def Let_def set_final_answer_def
          log_subtask_status_def add_tool_output_def)
qed

text \<open>
  Claim C7, as the code has it. In a pass that reaches execution (guard not exceeded, a
  tool selected, a plan that defines \<open>solve\<close>), a sandbox result that after trimming starts
  with none of the markers and does not contain the continuation marker anywhere is a
  success: the subtask is logged as successful, the result is recorded in memory, the
  final answer is the trimmed text prefixed with \<open>FINAL_ANSWER: \<close> and the loop returns it
  at once.
\<close>

theorem raw_result_terminal:
  assumes l: "0 \<le> lifelines_left"
    and g: "total_iterations s + 1 \<le> max_steps (ctx s) * 2"
    and p: "perceive e (user_input_override (ctx s)) (s\<lparr>total_iterations := total_iterations s + 1\<rparr>) = (srv, s2)"
    and t: "get_tools_from_servers e srv \<noteq> []"
    and pl: "plan = generate_plan e (total_iterations s + 1)
                     (effective_input (user_input_override (ctx s)) (ctx s2)) (stp + 1)"
    and d: "re_search_solve plan"
    and r: "result = strip (run_python_sandbox_of e (total_iterations s + 1) plan)"
    and raw: "\<not> startswith result final_marker" "\<not> startswith result further_marker"
             "\<not> startswith result sandbox_error_prefix"
    and nc: "\<not> contains result further_marker"
  shows "fst (while_loop e stp lifelines_left s) = Some (''FINAL_ANSWER: '' @ result)
       \<and> final_answer (ctx (snd (while_loop e stp lifelines_left s)))
           = Some (''FINAL_ANSWER: '' @ result)
       \<and> subtask_log (ctx (snd (while_loop e stp lifelines_left s)))
           = subtask_log (ctx s2) @ [(''solve_sandbox'', ''pending''), (''solve_sandbox'', ''success'')]
       \<and> memory_log (ctx (snd (while_loop e stp lifelines_left s)))
           = memory_log (ctx s2) @ [(plan, result, True)]"
proof -
  from body_raw[OF g p t pl d r raw nc] obtain s' where
    b: "loop_body e stp s = (Return (''FINAL_ANSWER: '' @ result), s')"
    and f: "final_answer (ctx s') = Some (''FINAL_ANSWER: '' @ result)"
    and sl: "subtask_log (ctx s') = subtask_log (ctx s2)
                 @ [(''solve_sandbox'', ''pending''), (''solve_sandbox'', ''success'')]"
    and ml: "memory_log (ctx s') = memory_log (ctx s2) @ [(plan, result, True)]"
    by blast
  have "while_loop e stp lifelines_left s = (Some (''FINAL_ANSWER: '' @ result), s')"
    using l b by (simp add: while_loop.simps[of e stp lifelines_left s])
  then show ?thesis using f sl ml by simp
qed

theorem raw_result_terminal_witness:
  "fst (while_loop (fixed_env solve_plan ''  4  '') 0 0 (initial_state (new_context ''q'' 1 0)))
     = Some ''FINAL_ANSWER: 4''"
  using raw_result_terminal[of 0 "initial_state (new_context ''q'' 1 0)"
      "fixed_env solve_plan ''  4  ''"
      "fst (perceive (fixed_env solve_plan ''  4  '') (user_input_override (ctx (initial_state (new_context ''q'' 1 0))))
            ((initial_state (new_context ''q'' 1 0))\<lparr>total_iterations := total_iterations (initial_state (new_context ''q'' 1 0)) + 1\<rparr>))"
      "snd (perceive (fixed_env solve_plan ''  4  '') (user_input_override (ctx (initial_state (new_context ''q'' 1 0))))
            ((initial_state (new_context ''q'' 1 0))\<lparr>total_iterations := total_iterations (initial_state (new_context ''q'' 1 0)) + 1\<rparr>))"
      solve_plan 0 "''4''"]
  by (simp add: eval_defs)


text \<open>
  A result that starts with no marker but contains the continuation marker is not
  terminal: with one step and no lifeline the run ends with "max steps reached".
\<close>

theorem raw_result_with_marker_counterexample:
  "\<not> startswith (strip ''Note: FURTHER_PROCESSING_REQUIRED: more'') final_marker
   \<and> \<not> startswith (strip ''Note: FURTHER_PROCESSING_REQUIRED: more'') further_marker
   \<and> \<not> startswith (strip ''Note: FURTHER_PROCESSING_REQUIRED: more'') sandbox_error_prefix
   \<and> fst (run (fixed_env solve_plan ''Note: FURTHER_PROCESSING_REQUIRED: more'')
            (new_context ''q'' 1 0)) = max_steps_answer"
  by (simp add: eval_defs max_steps_answer_def)

text \<open>
  A result that starts with no marker but contains the continuation marker further on is
  logged as a success as well, with the same final answer, but the pass does not return:
  it costs a lifeline and the loop goes on.
\<close>

lemma raw_with_marker_retried:
  assumes l: "0 \<le> lifelines_left"
    and g: "total_iterations s + 1 \<le> max_steps (ctx s) * 2"
    and p: "perceive e (user_input_override (ctx s)) (s\<lparr>total_iterations := total_iterations s + 1\<rparr>) = (srv, s2)"
    and t: "get_tools_from_servers e srv \<noteq> []"
    and pl: "plan = generate_plan e (total_iterations s + 1)
                     (effective_input (user_input_override (ctx s)) (ctx s2)) (stp + 1)"
    and d: "re_search_solve plan"
    and r: "result = strip (run_python_sandbox_of e (total_iterations s + 1) plan)"
    and raw: "\<not> startswith result final_marker" "\<not> startswith result further_marker"
             "\<not> startswith result sandbox_error_prefix"
    and c: "contains result further_marker"
  shows "\<exists>s'. loop_body e stp s = (Retry, s')
           \<and> final_answer (ctx s') = Some (''FINAL_ANSWER: '' @ result)
           \<and> subtask_log (ctx s') = subtask_log (ctx s2)
                 @ [(''solve_sandbox'', ''pending''), (''solve_sandbox'', ''success'')]
           \<and> memory_log (ctx s') = memory_log (ctx s2) @ [(plan, result, True)]
           \<and> while_loop e stp lifelines_left s = while_loop e stp (lifelines_left - 1) s'"
proof -
  have t2: "total_iterations s2 = total_iterations s + 1"
    using perceive_props(1)[OF p] by simp
  have "\<exists>s'. loop_body e stp s = (Retry, s')
           \<and> final_answer (ctx s') = Some (''FINAL_ANSWER: '' @ result)
           \<and> subtask_log (ctx s') = subtask_log (ctx s2)
                 @ [(''solve_sandbox'', ''pending''), (''solve_sandbox'', ''success'')]
           \<and> memory_log (ctx s') = memory_log (ctx s2) @ [(plan, result, True)]"
    using g p t d raw c t2 pl[symmetric] r[symmetric]
    by (simp add: loop_body_def execute_plan_def Let_def set_final_answer_def
          log_subtask_status_def add_tool_output_def)
  then obtain s' where b: "loop_body e stp s = (Retry, s')"
    and f: "final_answer (ctx s') = Some (''FINAL_ANSWER: '' @ result)"
    and sl: "subtask_log (ctx s') = subtask_log (ctx s2)
                 @ [(''solve_sandbox'', ''pending''), (''solve_sandbox'', ''success'')]"
    and ml: "memory_log (ctx s') = memory_log (ctx s2) @ [(plan, result, True)]"
    by blast
  have "while_loop e stp lifelines_left s = while_loop e stp (lifelines_left - 1) s'"
    using l b by (simp add: while_loop.simps[of e stp lifelines_left s])
  with b f sl ml show ?thesis by blast
qed

section \<open>Properties of the sandbox executor\<close>














text \<open>
  It fails as well for a plan that assigns \<open>mcp.call_count = 0\<close> before its sixth call:
  the proxy passes the call to the dispatcher.
\<close>

theorem counter_reset_sixth_call_dispatched:
  "run_python_sandbox (Solve six_calls_reset) echo_dispatcher =
     (Inr ''FINAL_ANSWER: done'',
      \<lparr>call_count = 1,
       events = [Dispatched ''add'' (add_args 1), Dispatched ''add'' (add_args 2),
                 Dispatched ''add'' (add_args 3), Dispatched ''add'' (add_args 4),
                 Dispatched ''add'' (add_args 5), Dispatched ''add'' (add_args 6)]\<rparr>)"
  by (simp add: run_python_sandbox_def try_block_def six_calls_reset_def five_calls_then_def
        call_then_def call_tool_def new_mcp_def echo_dispatcher_def MAX_TOOL_CALLS_PER_PLAN_def
        Let_def format_result_def py_str_def)

lemma json_key_error: "json_key k = Inl e \<Longrightarrow> kind e = ExceptionKind \<and> on_str e = Returns"
  by (auto simp add: json_key_def TypeError_def split: pyval.splits)

lemma first_error_Inl:
  "first_error rs = Inl e \<Longrightarrow> Inl e \<in> set rs"
  by (induction rs rule: first_error.induct) (auto split: sum.splits)

lemma json_dumps_error: "json_dumps v = Inl e \<Longrightarrow> kind e = ExceptionKind \<and> on_str e = Returns"
proof (induction v arbitrary: e rule: json_dumps.induct)
  case (5 xs)
  then obtain x where "x \<in> set xs" "json_dumps x = Inl e"
    by (auto split: sum.splits dest!: first_error_Inl)
  then show ?case using "5.IH" by blast
next
  case (6 xs)
  then obtain x where "x \<in> set xs" "json_dumps x = Inl e"
    by (auto split: sum.splits dest!: first_error_Inl)
  then show ?case using "6.IH" by blast
next
  case (7 kvs)
  then obtain k v where kv: "(k, v) \<in> set kvs"
    and r: "(case json_key k of Inl e \<Rightarrow> Inl e
             | Inr kt \<Rightarrow> (case json_dumps v of Inl e \<Rightarrow> Inl e
                          | Inr vt \<Rightarrow> Inr (kt @ '': '' @ vt))) = Inl e"
    by (auto split: sum.splits dest!: first_error_Inl)
  show ?case
  proof (cases "json_key k")
    case (Inl e')
    with r show ?thesis by (auto dest: json_key_error)
  next
    case (Inr kt)
    with r have "json_dumps v = Inl e" by (auto split: sum.splits)
    then show ?thesis using "7.IH" kv Inr by blast
  qed
qed (auto simp add: TypeError_def)

lemma format_result_error:
  "format_result v = Inl e \<Longrightarrow> kind e = ExceptionKind \<and> on_str e = Returns"
  by (auto simp add: format_result_def simp del: json_dumps.simps
        split: pyval.splits option.splits dest: json_dumps_error)








end
